theory Spec2Isabelle
  imports Complex_Main "HOL-Library.Sublist"
begin

section \<open>Strings\<close>

text \<open>
  A JavaScript string is modelled as a \<^typ>\<open>string\<close> holding its UTF-8 bytes: an ASCII
  character is one \<^typ>\<open>char\<close>, an emoji or a bullet of a template is the list of its
  bytes. The keywords the chat widget searches for are ASCII, and a run of ASCII bytes
  occurs in the UTF-8 text exactly where the same characters occur in the UTF-16 text.

  \<open>String.prototype.toLowerCase\<close> is a function of the JavaScript runtime, not of this
  program: it maps every character of Unicode that has a lower-case form (the Kelvin sign
  U+212A, for one, to \<open>k\<close>). The response function is therefore modelled with the
  lower-casing function as an argument, and what a proof needs of it is stated where it is
  needed. \<open>toLowerCase\<close> below is the ASCII case mapping, \<open>A\<close>..\<open>Z\<close> to \<open>a\<close>..\<open>z\<close> with every
  other byte left as it is: it is what the runtime's function does on an ASCII string, and
  the instance with which the model of the chat widget is run.
\<close>

definition isASCII :: "string \<Rightarrow> bool" where
  "isASCII s = list_all (\<lambda>c. (of_char c :: nat) < 128) s"

definition toLowerCase_char :: "char \<Rightarrow> char" where
  "toLowerCase_char c =
     (let n = (of_char c :: nat) in if 65 \<le> n \<and> n \<le> 90 then char_of (n + 32) else c)"

definition toLowerCase :: "string \<Rightarrow> string" where
  "toLowerCase s = map toLowerCase_char s"

text \<open>\<open>s.includes(k)\<close>: \<open>k\<close> occurs in \<open>s\<close> as a contiguous run, at some position.\<close>

fun includes_str :: "string \<Rightarrow> string \<Rightarrow> bool" where
  "includes_str [] k = (k = [])"
| "includes_str (c # s) k = (prefix k (c # s) \<or> includes_str s k)"

section \<open>The advisor's canned responses (ChatInterface.jsx, generateAIResponse)\<close>

definition savingsTemplate :: string where
  "savingsTemplate =
     [CHR 0xF0, CHR 0x9F, CHR 0x92, CHR 0xA1] @
     '' **Savings Strategy**:\<newline>'' @
     ''\<newline>'' @
     ''1. **Emergency Fund First**: Aim for 3-6 months of expenses\<newline>'' @
     ''2. **Automate Savings**: Set up automatic transfers\<newline>'' @
     ''3. **50/30/20 Rule**: 20% of income to savings\<newline>'' @
     ''4. **High-Yield Account**: Use accounts with better interest rates\<newline>'' @
     ''5. **Track Progress**: Monitor your savings goals regularly\<newline>'' @
     ''\<newline>'' @
     ''What specific savings goal are you working towards?''"

definition budgetTemplate :: string where
  "budgetTemplate =
     [CHR 0xF0, CHR 0x9F, CHR 0x93, CHR 0x8A] @
     '' **Budgeting Tips**:\<newline>'' @
     ''\<newline>'' @
     ''1. **Track Everything**: Use apps or spreadsheets\<newline>'' @
     ''2. **Categorize Expenses**: Needs vs. Wants vs. Savings\<newline>'' @
     ''3. **Set Realistic Goals**: Start small and build up\<newline>'' @
     ''4. **Review Monthly**: Adjust your budget as needed\<newline>'' @
     ''5. **Use Envelope Method**: Allocate cash for different categories\<newline>'' @
     ''\<newline>'' @
     ''Would you like me to help you create a specific budget plan?''"

definition investTemplate :: string where
  "investTemplate =
     [CHR 0xF0, CHR 0x9F, CHR 0x93, CHR 0x88] @
     '' **Investment Basics**:\<newline>'' @
     ''\<newline>'' @
     ''1. **Start Early**: Time is your biggest advantage\<newline>'' @
     ''2. **Diversify**: Don't put all eggs in one basket\<newline>'' @
     ''3. **Index Funds**: Low-cost, broad market exposure\<newline>'' @
     ''4. **Risk Tolerance**: Match investments to your comfort level\<newline>'' @
     ''5. **Long-term Focus**: Avoid trying to time the market\<newline>'' @
     ''\<newline>'' @
     ''What's your investment timeline and risk tolerance?''"

definition debtTemplate :: string where
  "debtTemplate =
     [CHR 0xF0, CHR 0x9F, CHR 0x92, CHR 0xB3] @
     '' **Debt Management**:\<newline>'' @
     ''\<newline>'' @
     ''1. **High-Interest First**: Pay off credit cards first\<newline>'' @
     ''2. **Debt Snowball**: Start with smallest debts\<newline>'' @
     ''3. **Consolidation**: Consider combining multiple debts\<newline>'' @
     ''4. **Avoid New Debt**: Stop adding to existing balances\<newline>'' @
     ''5. **Seek Help**: Consider credit counseling if needed\<newline>'' @
     ''\<newline>'' @
     ''What type of debt are you dealing with?''"

definition retirementTemplate :: string where
  "retirementTemplate =
     [CHR 0xF0, CHR 0x9F, CHR 0x8F, CHR 0x96, CHR 0xEF, CHR 0xB8, CHR 0x8F] @
     '' **Retirement Planning**:\<newline>'' @
     ''\<newline>'' @
     ''1. **Start Now**: Even small amounts add up over time\<newline>'' @
     ''2. **Employer Match**: Contribute enough to get full match\<newline>'' @
     ''3. **Roth vs Traditional**: Consider tax implications\<newline>'' @
     ''4. **Increase Contributions**: Aim for 15% of income\<newline>'' @
     ''5. **Diversify**: Mix of stocks, bonds, and other assets\<newline>'' @
     ''\<newline>'' @
     ''How many years until you plan to retire?''"

definition fallbackTemplate :: string where
  "fallbackTemplate =
     ''Thanks for your message! I'm here to help with all things finance. You '' @
     ''can:\<newline>'' @
     ''\<newline>'' @
     [CHR 0xE2, CHR 0x80, CHR 0xA2] @
     '' Ask me specific financial questions\<newline>'' @
     [CHR 0xE2, CHR 0x80, CHR 0xA2] @
     '' Take the financial quiz to test your knowledge\<newline>'' @
     [CHR 0xE2, CHR 0x80, CHR 0xA2] @
     '' Get personalized advice for your situation\<newline>'' @
     [CHR 0xE2, CHR 0x80, CHR 0xA2] @
     '' Create a savings plan\<newline>'' @
     [CHR 0xE2, CHR 0x80, CHR 0xA2] @
     '' Get help with budgeting\<newline>'' @
     ''\<newline>'' @
     ''What would you like to focus on?''"

text \<open>
  \<open>generateAIResponse\<close> is an \<open>async\<close> function: it returns a promise, which settles
  with the returned string, or would be rejected with an exception thrown in the body.
\<close>

datatype error = TypeError

datatype 'a settled = Fulfilled 'a | Rejected error

definition generateAIResponseWith :: "(string \<Rightarrow> string) \<Rightarrow> string \<Rightarrow> string settled" where
  "generateAIResponseWith toLower message =
     (let lowerMessage = toLower message in
      if includes_str lowerMessage ''savings'' \<or> includes_str lowerMessage ''save''
        then Fulfilled savingsTemplate
      else if includes_str lowerMessage ''budget'' \<or> includes_str lowerMessage ''spending''
        then Fulfilled budgetTemplate
      else if includes_str lowerMessage ''invest'' \<or> includes_str lowerMessage ''investment''
        then Fulfilled investTemplate
      else if includes_str lowerMessage ''debt'' \<or> includes_str lowerMessage ''credit''
        then Fulfilled debtTemplate
      else if includes_str lowerMessage ''retirement'' \<or> includes_str lowerMessage ''401k''
        then Fulfilled retirementTemplate
      else Fulfilled fallbackTemplate)"

definition generateAIResponse :: "string \<Rightarrow> string settled" where
  "generateAIResponse message = generateAIResponseWith toLowerCase message"

text \<open>
  The specification's reading of the same function: a table of response rules in
  declaration order, each a set of keywords with a template, scanned for the first rule
  one of whose keywords is a substring of the lower-cased input. \<open>lowerCased\<close> is
  lower-casing as a table of the 26 letters, for an ASCII input.
\<close>

definition lowerCaseLetter :: "char \<Rightarrow> char" where
  "lowerCaseLetter c =
     (case map_of (zip ''ABCDEFGHIJKLMNOPQRSTUVWXYZ'' ''abcdefghijklmnopqrstuvwxyz'') c of
        Some l \<Rightarrow> l
      | None \<Rightarrow> c)"

definition lowerCased :: "string \<Rightarrow> string" where
  "lowerCased s = map lowerCaseLetter s"

record responseRule =
  rule_keywords :: "string list"
  template :: string

definition responseRules :: "responseRule list" where
  "responseRules =
     [\<lparr>rule_keywords = [''savings'', ''save''], template = savingsTemplate\<rparr>,
      \<lparr>rule_keywords = [''budget'', ''spending''], template = budgetTemplate\<rparr>,
      \<lparr>rule_keywords = [''invest'', ''investment''], template = investTemplate\<rparr>,
      \<lparr>rule_keywords = [''debt'', ''credit''], template = debtTemplate\<rparr>,
      \<lparr>rule_keywords = [''retirement'', ''401k''], template = retirementTemplate\<rparr>]"

definition ruleMatches :: "string \<Rightarrow> responseRule \<Rightarrow> bool" where
  "ruleMatches lowered r = list_ex (\<lambda>k. sublist k lowered) (rule_keywords r)"

definition ruleScanResponse :: "string \<Rightarrow> string" where
  "ruleScanResponse lowered =
     (case find (ruleMatches lowered) responseRules of
        Some r \<Rightarrow> template r
      | None \<Rightarrow> fallbackTemplate)"

section \<open>Numbers in template literals\<close>

text \<open>\<open>${n}\<close> for a non-negative integer: its decimal digits.\<close>

fun showNat :: "nat \<Rightarrow> string" where
  "showNat n =
     (if n < 10 then [''0123456789'' ! n] else showNat (n div 10) @ [''0123456789'' ! (n mod 10)])"

text \<open>
  JavaScript numbers are IEEE doubles; the model computes with exact rationals. The
  only arithmetic of the quiz is \<open>(quizScore / 5) * 100\<close>, which in doubles is exactly
  \<open>20 * quizScore\<close> for every score from 0 to 10, as in the model. \<open>${x}\<close> prints an
  integral number as its decimal digits and any other number with its fraction digits
  (the model prints at most 17 of them).
\<close>

fun fractionDigits :: "nat \<Rightarrow> rat \<Rightarrow> string" where
  "fractionDigits 0 f = []"
| "fractionDigits (Suc k) f =
     (if f = 0 then []
      else (''0123456789'' ! nat \<lfloor>10 * f\<rfloor>) # fractionDigits k (10 * f - of_int \<lfloor>10 * f\<rfloor>))"

definition numberToString :: "rat \<Rightarrow> string" where
  "numberToString x =
     (let a = \<bar>x\<bar>; whole = \<lfloor>a\<rfloor>; f = a - of_int whole in
      (if x < 0 then ''-'' else []) @ showNat (nat whole) @
      (if f = 0 then [] else ''.'' @ fractionDigits 17 f))"

section \<open>The chat widget's state (ChatInterface.jsx)\<close>

record message =
  message_id :: int
  message_type :: string
  content :: string
  timestamp :: int
  sender :: string

record quizQuestion =
  question_id :: nat
  question :: string
  options :: "string list"
  correct :: nat
  explanation :: string

definition quizQuestions :: "quizQuestion list" where
  "quizQuestions =
    [
     \<lparr>question_id = 1,
      question =
        ''What is the 50/30/20 rule for budgeting?'',
      options =
        [''50% needs, 30% wants, 20% savings'',
         ''50% savings, 30% needs, 20% wants'',
         ''50% wants, 30% savings, 20% needs'',
         ''50% bills, 30% food, 20% entertainment''],
      correct = 0,
      explanation =
        ''The 50/30/20 rule suggests allocating 50% of income to needs, 30% to wants, '' @
          ''and 20% to savings and debt repayment.''\<rparr>,
     \<lparr>question_id = 2,
      question =
        ''What is compound interest?'',
      options =
        [''Interest earned only on the principal amount'',
         ''Interest earned on both principal and accumulated interest'',
         ''A type of bank fee'',
         ''A loan payment method''],
      correct = 1,
      explanation =
        ''Compound interest is interest earned on both the initial principal and '' @
          ''the accumulated interest from previous periods.''\<rparr>,
     \<lparr>question_id = 3,
      question =
        ''What is an emergency fund?'',
      options =
        [''Money for vacations'',
         ''3-6 months of living expenses saved for emergencies'',
         ''Investment portfolio'',
         ''Credit card balance''],
      correct = 1,
      explanation =
        ''An emergency fund should cover 3-6 months of living expenses for unexpected '' @
          ''situations like job loss or medical emergencies.''\<rparr>,
     \<lparr>question_id = 4,
      question =
        ''What is diversification in investing?'',
      options =
        [''Putting all money in one stock'',
         ''Spreading investments across different assets'',
         ''Selling all investments'',
         ''Borrowing money to invest''],
      correct = 1,
      explanation =
        ''Diversification means spreading investments across different asset classes '' @
          ''to reduce risk.''\<rparr>,
     \<lparr>question_id = 5,
      question =
        ''What is a credit score?'',
      options =
        [''Your bank account balance'',
         ''A number that represents your creditworthiness'',
         ''Your monthly income'',
         ''Your tax return amount''],
      correct = 1,
      explanation =
        ''A credit score is a number that lenders use to assess your creditworthiness '' @
          ''and likelihood of repaying loans.''\<rparr>]"

record quiz =
  currentQuestion :: nat
  questions :: "quizQuestion list"
  answers :: "nat list"

text \<open>
  The component is a React function component: each render runs the function body again
  and the handlers it defines close over that render's state values. A handler called
  by a click is the one of the latest render, so it reads the current state. A callback
  handed to \<open>setTimeout\<close> keeps the values of the render that scheduled it: when it runs
  two seconds later it still sees that render's \<open>currentQuiz\<close> and \<open>quizScore\<close>, whatever
  has been set since. A pending callback is therefore modelled with the values it captured.
  Setters called with a function (\<open>setMessages(prev => ...)\<close>) work on the latest state.
\<close>

datatype timeout =
    NextQuestionTimeout quiz  \<comment> \<open>lines 194-197, capturing \<open>currentQuiz\<close>\<close>
  | QuizResultsTimeout nat    \<comment> \<open>lines 200-202, capturing \<open>quizScore\<close> through \<open>showQuizResults\<close>\<close>

datatype toast = ToastSuccess string | ToastError string

text \<open>
  The source binds the name \<open>showQuizResults\<close> twice in the component, to the state flag of
  line 28 and to the function of line 206. The model reads them as the two things they
  are used as: the flag is \<open>showQuizResults_flag\<close>, the function \<open>showQuizResults\<close>.
  \<open>timeouts\<close> is the browser's queue of pending \<open>setTimeout\<close> callbacks, oldest first; all
  of them are scheduled with the same delay, so they run in the order they were scheduled.
\<close>

record state =
  messages :: "message list"
  inputMessage :: string
  isLoading :: bool
  currentQuiz :: "quiz option"
  quizScore :: nat
  showQuizResults_flag :: bool
  activeMode :: string
  timeouts :: "timeout list"
  toasts :: "toast list"

definition initialMessages :: "int \<Rightarrow> message list" where
  "initialMessages date =
     [\<lparr>message_id = 1, message_type = ''bot'',
       content =
        ''Hi! I'm Sam, your AI Financial Advisor! '' @
        [CHR 0xF0, CHR 0x9F, CHR 0x8E, CHR 0xAF],
       timestamp = date, sender = ''Sam''\<rparr>,
      \<lparr>message_id = 2, message_type = ''bot'',
       content =
        ''I can help you with:\<newline>'' @
        [CHR 0xE2, CHR 0x80, CHR 0xA2] @
        '' '' @
        [CHR 0xF0, CHR 0x9F, CHR 0x93, CHR 0x8A] @
        '' Financial Quizzes & Knowledge\<newline>'' @
        [CHR 0xE2, CHR 0x80, CHR 0xA2] @
        '' '' @
        [CHR 0xF0, CHR 0x9F, CHR 0x92, CHR 0xA1] @
        '' Personalized Financial Advice\<newline>'' @
        [CHR 0xE2, CHR 0x80, CHR 0xA2] @
        '' '' @
        [CHR 0xF0, CHR 0x9F, CHR 0x8E, CHR 0xAF] @
        '' Savings Plans & Goals\<newline>'' @
        [CHR 0xE2, CHR 0x80, CHR 0xA2] @
        '' '' @
        [CHR 0xF0, CHR 0x9F, CHR 0x93, CHR 0x88] @
        '' Investment Strategies\<newline>'' @
        [CHR 0xE2, CHR 0x80, CHR 0xA2] @
        '' '' @
        [CHR 0xF0, CHR 0x9F, CHR 0x92, CHR 0xB0] @
        '' Budget Planning\<newline>'' @
        ''\<newline>'' @
        ''What would you like to explore today?'',
       timestamp = date, sender = ''Sam''\<rparr>]"

text \<open>
  \<open>Date.now()\<close> and \<open>new Date()\<close> read the clock; the readings are arguments of the model
  (\<open>now\<close> and \<open>date\<close>, in milliseconds), supplied by the environment at each call.
\<close>

definition addMessage :: "int \<Rightarrow> int \<Rightarrow> string \<Rightarrow> string \<Rightarrow> string \<Rightarrow> state \<Rightarrow> state" where
  "addMessage now date text sender_type name st =
     (let newMessage = \<lparr>message_id = now, message_type = sender_type, content = text,
                         timestamp = date, sender = name\<rparr>
      in st\<lparr>messages := messages st @ [newMessage]\<rparr>)"

definition startQuiz :: "state \<Rightarrow> state" where
  "startQuiz st =
     st\<lparr>currentQuiz := Some \<lparr>currentQuestion = 0, questions = quizQuestions, answers = []\<rparr>,
        quizScore := 0,
        showQuizResults_flag := False\<rparr>"

definition answerMessage :: "quizQuestion \<Rightarrow> nat \<Rightarrow> bool \<Rightarrow> string" where
  "answerMessage q answerIndex isCorrect =
     ''Your answer: '' @
     (if answerIndex < length (options q) then options q ! answerIndex else ''undefined'') @
     ''\<newline>\<newline>'' @
     (if isCorrect
        then [CHR 0xE2, CHR 0x9C, CHR 0x85] @
          '' Correct!''
        else [CHR 0xE2, CHR 0x9D, CHR 0x8C] @
          '' Incorrect!'') @
     ''\<newline>\<newline>'' @ explanation q"

text \<open>
  \<open>handleQuizAnswer\<close>. Reading \<open>question.correct\<close> when \<open>currentQuestion\<close> is not an index of
  \<open>questions\<close> throws a TypeError before any setter has run.
\<close>

definition handleQuizAnswer :: "nat \<Rightarrow> int \<Rightarrow> int \<Rightarrow> state \<Rightarrow> error + state" where
  "handleQuizAnswer answerIndex now date st =
     (case currentQuiz st of
        None \<Rightarrow> Inr st
      | Some cq \<Rightarrow>
          if length (questions cq) \<le> currentQuestion cq then Inl TypeError
          else
            let q = questions cq ! currentQuestion cq;
                isCorrect = (answerIndex = correct q);
                st1 = (if isCorrect then st\<lparr>quizScore := quizScore st + 1\<rparr> else st);
                st2 = addMessage now date (answerMessage q answerIndex isCorrect) ''bot'' ''Sam'' st1
            in if int (currentQuestion cq) < int (length (questions cq)) - 1
               then Inr (st2\<lparr>currentQuiz := Some (cq\<lparr>currentQuestion := currentQuestion cq + 1\<rparr>),
                              timeouts := timeouts st2 @ [NextQuestionTimeout cq]\<rparr>)
               else Inr (st2\<lparr>timeouts := timeouts st2 @ [QuizResultsTimeout (quizScore st)]\<rparr>))"

definition expertTierMessage :: string where
  "expertTierMessage =
     [CHR 0xF0, CHR 0x9F, CHR 0x8F, CHR 0x86] @
       '' You're a financial expert! Keep up the great work and continue learning '' @
       ''about personal finance.''"

definition intermediateTierMessage :: string where
  "intermediateTierMessage =
     [CHR 0xF0, CHR 0x9F, CHR 0x93, CHR 0x9A] @
       '' You have a solid foundation. Let's work on improving your knowledge together!''"

definition beginnerTierMessage :: string where
  "beginnerTierMessage =
     [CHR 0xF0, CHR 0x9F, CHR 0x92, CHR 0xA1] @
       '' Don't worry - financial literacy is a journey. I'm here to help you learn '' @
       ''and grow!''"

definition scoreLine :: "nat \<Rightarrow> rat \<Rightarrow> string" where
  "scoreLine score percentage =
     showNat score @ ''/'' @ showNat (length quizQuestions) @
     '' ('' @ numberToString percentage @ ''%)\<newline>\<newline>''"

definition resultMessage :: "nat \<Rightarrow> rat \<Rightarrow> string" where
  "resultMessage score percentage =
     (if percentage \<ge> 80 then
        [CHR 0xF0, CHR 0x9F, CHR 0x8E, CHR 0x89] @
        '' Congratulations! You scored '' @
        scoreLine score percentage @ expertTierMessage
      else if percentage \<ge> 60 then
        [CHR 0xF0, CHR 0x9F, CHR 0x91, CHR 0x8D] @
        '' Good job! You scored '' @
        scoreLine score percentage @ intermediateTierMessage
      else
        [CHR 0xF0, CHR 0x9F, CHR 0x93, CHR 0x96] @
        '' Nice effort! You scored '' @
        scoreLine score percentage @ beginnerTierMessage)"

definition percentageOf :: "nat \<Rightarrow> rat" where
  "percentageOf score = (of_nat score / of_nat (length quizQuestions)) * 100"

text \<open>\<open>showQuizResults\<close>, with the \<open>quizScore\<close> its closure holds.\<close>

definition showQuizResults :: "nat \<Rightarrow> int \<Rightarrow> int \<Rightarrow> state \<Rightarrow> state" where
  "showQuizResults score now date st =
     (let percentage = percentageOf score;
          st1 = addMessage now date (resultMessage score percentage) ''bot'' ''Sam'' st
      in st1\<lparr>showQuizResults_flag := True, currentQuiz := None\<rparr>)"

text \<open>The body of a pending callback, run with the values it captured.\<close>

fun runCallback :: "timeout \<Rightarrow> int \<Rightarrow> int \<Rightarrow> state \<Rightarrow> error + state" where
  "runCallback (NextQuestionTimeout cq) now date st =
     (if length (questions cq) \<le> currentQuestion cq + 1 then Inl TypeError
      else
        let nextQuestion = questions cq ! (currentQuestion cq + 1)
        in Inr (addMessage now date
                  (''Question '' @ showNat (currentQuestion cq + 2) @ '': '' @ question nextQuestion)
                  ''bot'' ''Sam'' st))"
| "runCallback (QuizResultsTimeout score) now date st = Inr (showQuizResults score now date st)"

text \<open>
  \<open>trim()\<close> removes white space and line terminators at both ends. \<open>whiteSpace\<close> lists
  them as JavaScript defines them, each in UTF-8: U+0009 to U+000D, U+0020, U+00A0,
  U+1680, U+2000 to U+200A, U+2028, U+2029, U+202F, U+205F, U+3000 and U+FEFF.
\<close>

definition whiteSpace :: "string list" where
  "whiteSpace =
     [[CHR 0x09], [CHR 0x0A], [CHR 0x0B], [CHR 0x0C], [CHR 0x0D], [CHR 0x20],
      [CHR 0xC2, CHR 0xA0],
      [CHR 0xE1, CHR 0x9A, CHR 0x80],
      [CHR 0xE2, CHR 0x80, CHR 0x80], [CHR 0xE2, CHR 0x80, CHR 0x81],
      [CHR 0xE2, CHR 0x80, CHR 0x82], [CHR 0xE2, CHR 0x80, CHR 0x83],
      [CHR 0xE2, CHR 0x80, CHR 0x84], [CHR 0xE2, CHR 0x80, CHR 0x85],
      [CHR 0xE2, CHR 0x80, CHR 0x86], [CHR 0xE2, CHR 0x80, CHR 0x87],
      [CHR 0xE2, CHR 0x80, CHR 0x88], [CHR 0xE2, CHR 0x80, CHR 0x89],
      [CHR 0xE2, CHR 0x80, CHR 0x8A],
      [CHR 0xE2, CHR 0x80, CHR 0xA8], [CHR 0xE2, CHR 0x80, CHR 0xA9],
      [CHR 0xE2, CHR 0x80, CHR 0xAF],
      [CHR 0xE2, CHR 0x81, CHR 0x9F],
      [CHR 0xE3, CHR 0x80, CHR 0x80],
      [CHR 0xEF, CHR 0xBB, CHR 0xBF]]"

text \<open>\<open>dropLeading ws s\<close>: \<open>s\<close> without the members of \<open>ws\<close> it starts with.\<close>

function dropLeading :: "string list \<Rightarrow> string \<Rightarrow> string" where
  "dropLeading ws s =
     (case find (\<lambda>w. w \<noteq> [] \<and> prefix w s) ws of
        None \<Rightarrow> s
      | Some w \<Rightarrow> dropLeading ws (drop (length w) s))"
  by pat_completeness auto
termination
proof (relation "measure (\<lambda>(ws, s). length s)")
  show "wf (measure (\<lambda>(ws, s). length s))" by simp
next
  fix ws :: "string list" and s w :: string
  assume "find (\<lambda>w. w \<noteq> [] \<and> prefix w s) ws = Some w"
  then have "w \<noteq> []" and "prefix w s"
    by (auto simp: find_Some_iff)
  then have "1 \<le> length w" and "length w \<le> length s"
    by (cases w, simp_all add: prefix_length_le)
  then have "length s - length w < length s"
    by arith
  then show "((ws, drop (length w) s), (ws, s)) \<in> measure (\<lambda>(ws, s). length s)"
    by simp
qed

declare dropLeading.simps [simp del]

definition trim :: "string \<Rightarrow> string" where
  "trim s = rev (dropLeading (map rev whiteSpace) (rev (dropLeading whiteSpace s)))"

text \<open>
  \<open>handleSendMessage\<close>. The user's message takes its id from a first reading of the clock
  (\<open>now1\<close>), the reply from a second one (\<open>now2\<close>) made after the awaited promise has
  settled.
\<close>

definition handleSendMessage :: "int \<Rightarrow> int \<Rightarrow> int \<Rightarrow> int \<Rightarrow> state \<Rightarrow> state" where
  "handleSendMessage now1 date1 now2 date2 st =
     (if trim (inputMessage st) = [] \<or> isLoading st then st
      else
        let userMessage = \<lparr>message_id = now1, message_type = ''user'',
                             content = trim (inputMessage st), timestamp = date1,
                             sender = ''You''\<rparr>;
            st1 = st\<lparr>messages := messages st @ [userMessage], inputMessage := [],
                      isLoading := True\<rparr>;
            st2 = (case generateAIResponse (trim (inputMessage st)) of
                     Fulfilled response \<Rightarrow> addMessage now2 date2 response ''bot'' ''Sam'' st1
                   | Rejected e \<Rightarrow>
                       (let st' = addMessage now2 date2
                            (''I'm having trouble processing your request right now. Please try again!'')
                            ''bot'' ''Sam'' st1
                        in st'\<lparr>toasts := toasts st' @
                                   [ToastError ''Failed to get response from Sam'']\<rparr>))
        in st2\<lparr>isLoading := False\<rparr>)"

definition handleQuickAction :: "string \<Rightarrow> int \<Rightarrow> int \<Rightarrow> state \<Rightarrow> state" where
  "handleQuickAction actionId now date st =
     (let st1 = st\<lparr>activeMode := actionId, currentQuiz := None, showQuizResults_flag := False\<rparr>
      in if actionId = ''quiz'' then
           addMessage now date
             (''Great choice! Let's test your financial knowledge. I'll ask you 5 questions '' @
              ''about personal finance. Ready to start?'')
             ''bot'' ''Sam'' (startQuiz st1)
         else if actionId = ''advice'' then
           addMessage now date
             (''I'd love to give you personalized financial advice! Tell me about your '' @
              ''current financial situation, goals, or any specific concerns you have.'')
             ''bot'' ''Sam'' st1
         else if actionId = ''savings'' then
           addMessage now date
             (''Excellent! Let's create a personalized savings plan. First, tell me about '' @
              ''your current savings, income, and what you're saving for (emergency fund, '' @
              ''vacation, house, retirement, etc.).'')
             ''bot'' ''Sam'' st1
         else if actionId = ''budget'' then
           addMessage now date
             (''Budgeting is key to financial success! Share your monthly income and expenses, '' @
              ''and I'll help you create a realistic budget plan.'')
             ''bot'' ''Sam'' st1
         else
           addMessage now date
             (''How can I help you today?'')
             ''bot'' ''Sam'' st1)"

definition resetChat :: "int \<Rightarrow> state \<Rightarrow> state" where
  "resetChat date st =
     st\<lparr>messages := initialMessages date, currentQuiz := None,
        showQuizResults_flag := False, activeMode := ''chat''\<rparr>"

definition initialState :: "int \<Rightarrow> state" where
  "initialState date =
     \<lparr>messages = initialMessages date, inputMessage = [], isLoading = False,
      currentQuiz = None, quizScore = 0, showQuizResults_flag = False,
      activeMode = ''chat'', timeouts = [], toasts = []\<rparr>"

subsection \<open>Runs of the quiz\<close>

text \<open>
  What happens to a quiz once it has started: the user clicks an answer, or the oldest
  pending callback runs. Each event carries the clock readings its \<open>addMessage\<close> makes.
  An exception thrown by a handler or a callback leaves the state as it was.
\<close>

datatype event = QuizAnswer nat int int | TimeoutFires int int

fun stepEvent :: "event \<Rightarrow> state \<Rightarrow> state" where
  "stepEvent (QuizAnswer answerIndex now date) st =
     (case handleQuizAnswer answerIndex now date st of Inr st' \<Rightarrow> st' | Inl e \<Rightarrow> st)"
| "stepEvent (TimeoutFires now date) st =
     (case timeouts st of
        [] \<Rightarrow> st
      | t # ts \<Rightarrow>
          (case runCallback t now date (st\<lparr>timeouts := ts\<rparr>) of
             Inr st' \<Rightarrow> st'
           | Inl e \<Rightarrow> st\<lparr>timeouts := ts\<rparr>))"

fun run :: "event list \<Rightarrow> state \<Rightarrow> state" where
  "run [] st = st"
| "run (ev # evs) st = run evs (stepEvent ev st)"

fun answersIn :: "event list \<Rightarrow> nat" where
  "answersIn [] = 0"
| "answersIn (QuizAnswer answerIndex now date # evs) = Suc (answersIn evs)"
| "answersIn (TimeoutFires now date # evs) = answersIn evs"

section \<open>The mock analytics panel (AIAnalytics, handleAnalysis)\<close>

datatype json =
    JNum rat
  | JStr string
  | JBool bool
  | JArr "json list"
  | JObj "(string \<times> json) list"

text \<open>
  \<open>generateMockResults\<close>; \<open>isoString\<close> is the string \<open>new Date().toISOString()\<close> returns at the call.
  An object is the list of its properties in the order they are written.
\<close>

definition generateMockResults :: "string \<Rightarrow> string \<Rightarrow> json" where
  "generateMockResults isoString analysisType =
     (let baseResults =
            [(''timestamp'', JStr isoString),
             (''analysis_type'', JStr analysisType),
             (''user_id'', JStr ''user_123'')]
      in if analysisType = ''comprehensive'' then
        JObj (baseResults @
          [(''ai_insights'', JArr
             [JObj
               [(''type'', JStr ''ai_spending_insight''),
                (''title'', JStr ''AI-Powered Spending Analysis''),
                (''description'', JStr
                   (''Advanced analysis of your spending patterns using AI algorithms'')),
                (''insights'', JArr
                  [JStr
                    (''Your top spending category Housing represents 45.2% of total spending. '' @
                     ''Consider diversifying expenses.''),
                   JStr
                    (''Your spending is concentrated in few categories. Consider diversifying '' @
                     ''for better financial health.'')]),
                (''priority'', JStr ''high''),
                (''ai_generated'', JBool True)],
              JObj
               [(''type'', JStr ''ai_savings_insight''),
                (''title'', JStr ''AI-Powered Savings Analysis''),
                (''description'', JStr
                   (''Intelligent analysis of your savings behavior and optimization opportunities'')),
                (''insights'', JArr
                  [JStr
                    (''Good savings rate! AI suggests increasing to 30% for better financial '' @
                     ''security and faster goal achievement.'')]),
                (''priority'', JStr ''medium''),
                (''ai_generated'', JBool True)]]),
           (''spending_prediction'', JObj
             [(''prediction_type'', JStr ''spending_patterns''),
              (''next_month_prediction'', JNum 1850.50),
              (''confidence_interval'', JObj
                [(''lower'', JNum 1650.25),
                 (''upper'', JNum 2050.75),
                 (''confidence_level'', JNum 0.95)]),
              (''category_predictions'', JObj
                [(''Housing'', JObj [(''predicted'', JNum 1200), (''confidence'', JNum 0.92)]),
                 (''Food'', JObj [(''predicted'', JNum 450), (''confidence'', JNum 0.88)]),
                 (''Transportation'',
                    JObj [(''predicted'', JNum 200), (''confidence'', JNum 0.85)])])]),
           (''savings_prediction'', JObj
             [(''prediction_type'', JStr ''savings_growth''),
              (''current_savings'', JNum 15000),
              (''monthly_contribution'', JNum 800),
              (''expected_annual_return'', JNum 0.07),
              (''predictions'', JObj
                [(''1_years'', JObj
                   [(''future_value'', JNum 25800),
                    (''total_contributions'', JNum 9600),
                    (''interest_earned'', JNum 1200),
                    (''growth_multiplier'', JNum 1.72)]),
                 (''5_years'', JObj
                   [(''future_value'', JNum 65000),
                    (''total_contributions'', JNum 48000),
                    (''interest_earned'', JNum 2000),
                    (''growth_multiplier'', JNum 4.33)])])])])
      else JObj baseResults)"

record analyticsState =
  isAnalyzing :: bool
  analysisResults :: "json option"
  analysisToasts :: "toast list"

text \<open>
  \<open>handleAnalysis\<close>. \<open>delay\<close> is how the awaited promise of line 89 settles: fulfilled, or
  rejected with an error, which the \<open>catch\<close> block receives.
\<close>

definition handleAnalysis :: "unit settled \<Rightarrow> string \<Rightarrow> string \<Rightarrow> analyticsState \<Rightarrow> analyticsState" where
  "handleAnalysis delay isoString analysisType st =
     (let st1 = st\<lparr>isAnalyzing := True\<rparr>;
          st2 = (case delay of
                   Fulfilled u \<Rightarrow>
                     (let mockResults = generateMockResults isoString analysisType
                      in st1\<lparr>analysisResults := Some mockResults,
                              analysisToasts := analysisToasts st1 @
                                [ToastSuccess ''AI Analysis completed successfully!'']\<rparr>)
                 | Rejected e \<Rightarrow>
                     st1\<lparr>analysisToasts := analysisToasts st1 @
                           [ToastError ''Analysis failed. Please try again.'']\<rparr>)
      in st2\<lparr>isAnalyzing := False\<rparr>)"

subsection \<open>A session with every answer right, and the invariant of a run\<close>

text \<open>
  The five right answers (options 0, 1, 1, 1, 1), clicked three seconds apart; in
  \<open>allCorrectSession\<close> each click is followed, two seconds later, by the callback it
  scheduled.
\<close>

definition allCorrectAnswers :: "event list" where
  "allCorrectAnswers =
     [QuizAnswer 0 1000 1000, QuizAnswer 1 4000 4000, QuizAnswer 1 7000 7000,
      QuizAnswer 1 10000 10000, QuizAnswer 1 13000 13000]"

definition allCorrectSession :: "event list" where
  "allCorrectSession =
     [QuizAnswer 0 1000 1000, TimeoutFires 3000 3000,
      QuizAnswer 1 4000 4000, TimeoutFires 6000 6000,
      QuizAnswer 1 7000 7000, TimeoutFires 9000 9000,
      QuizAnswer 1 10000 10000, TimeoutFires 12000 12000,
      QuizAnswer 1 13000 13000, TimeoutFires 15000 15000]"

fun isResultsTimeout :: "timeout \<Rightarrow> bool" where
  "isResultsTimeout (QuizResultsTimeout score) = True"
| "isResultsTimeout (NextQuestionTimeout cq) = False"

text \<open>
  What holds after \<open>k\<close> answer clicks in a quiz started with no callback pending: while
  the quiz is shown it is at question \<open>min k 4\<close>, and a results callback is pending
  exactly from the fifth click on; once the quiz is gone the results flag is set.
\<close>

definition quizInv :: "nat \<Rightarrow> state \<Rightarrow> bool" where
  "quizInv k s =
     (quizScore s \<le> k \<and>
      (case currentQuiz s of
         None \<Rightarrow> showQuizResults_flag s
       | Some cq \<Rightarrow>
           questions cq = quizQuestions \<and> currentQuestion cq = min k 4 \<and>
           list_ex isResultsTimeout (timeouts s) = (5 \<le> k)))"

section \<open>Facts about the quiz bank and the strings\<close>

lemma includes_str_sublist: "includes_str s k \<longleftrightarrow> sublist k s"
  by (induction s) (auto simp: sublist_Cons_right)

lemma upper_case_codes:
  "map of_char ''ABCDEFGHIJKLMNOPQRSTUVWXYZ'' = [65..<91::nat]"
  by code_simp

lemma toLowerCase_upper:
  "map toLowerCase_char ''ABCDEFGHIJKLMNOPQRSTUVWXYZ'' = ''abcdefghijklmnopqrstuvwxyz''"
  by code_simp

text \<open>The arithmetic of \<open>toLowerCase_char\<close> and the table of letters agree on every byte.\<close>

lemma toLowerCase_char_lowerCaseLetter: "toLowerCase_char c = lowerCaseLetter c"
proof (cases "65 \<le> (of_char c :: nat) \<and> (of_char c :: nat) \<le> 90")
  case True
  let ?up = "''ABCDEFGHIJKLMNOPQRSTUVWXYZ''" and ?low = "''abcdefghijklmnopqrstuvwxyz''"
  from True have "(of_char c :: nat) \<in> {65..<91}"
    by (simp only: atLeastLessThan_iff) arith
  then have "(of_char c :: nat) \<in> set [65..<91]"
    by (simp only: set_upt)
  then have "(of_char c :: nat) \<in> of_char ` set ?up"
    by (simp only: upper_case_codes [symmetric] set_map)
  then have "c \<in> set ?up"
    by (simp only: inj_image_mem_iff [OF inj_of_char])
  then obtain i where i: "i < length ?up" and c: "c = ?up ! i"
    by (auto simp only: in_set_conv_nth)
  have "toLowerCase_char c = map toLowerCase_char ?up ! i"
    using i c by (simp only: nth_map)
  also have "\<dots> = ?low ! i"
    by (simp only: toLowerCase_upper)
  finally have code: "toLowerCase_char c = ?low ! i" .
  have "distinct ?up" by simp
  moreover have "length ?up = length ?low" by simp
  ultimately have "map_of (zip ?up ?low) (?up ! i) = Some (?low ! i)"
    using i by (intro map_of_zip_nth) simp_all
  then have "lowerCaseLetter c = ?low ! i"
    unfolding lowerCaseLetter_def c by (simp only: option.case)
  with code show ?thesis by simp
next
  case False
  then have a: "toLowerCase_char c = c"
    unfolding toLowerCase_char_def Let_def by (rule if_not_P)
  from False have "c \<notin> set ''ABCDEFGHIJKLMNOPQRSTUVWXYZ''" by auto
  then have "map_of (zip ''ABCDEFGHIJKLMNOPQRSTUVWXYZ'' ''abcdefghijklmnopqrstuvwxyz'') c = None"
    by (simp only: map_of_eq_None_iff map_fst_zip length_Cons list.size, simp)
  then have "lowerCaseLetter c = c"
    unfolding lowerCaseLetter_def by (simp only: option.case)
  with a show ?thesis by simp
qed

lemma toLowerCase_lowerCased: "toLowerCase s = lowerCased s"
  by (simp add: toLowerCase_def lowerCased_def toLowerCase_char_lowerCaseLetter)

lemma trim_hi: "trim ''hi'' = ''hi''"
  by (simp add: trim_def dropLeading.simps [of _ "''hi''"] dropLeading.simps [of _ "''ih''"]
        whiteSpace_def)

lemma trim_no_break_spaces: "trim [CHR 0xC2, CHR 0xA0, CHR 0xC2, CHR 0xA0] = []"
  by code_simp

lemma quizQuestions_length: "length quizQuestions = 5"
  by (simp add: quizQuestions_def)

lemma correct_nth:
  "i < 5 \<Longrightarrow> correct (quizQuestions ! i) = (if i = 0 then 0 else 1)"
proof -
  assume "i < 5"
  then consider "i = 0" | "i = 1" | "i = 2" | "i = 3" | "i = 4" by linarith
  then show ?thesis by cases (simp_all add: quizQuestions_def)
qed

lemmas quiz_defs = startQuiz_def initialState_def handleQuizAnswer_def addMessage_def
  quizQuestions_length correct_nth showQuizResults_def Let_def

section \<open>The advisor's responses\<close>

lemma generateAIResponseWith_scan:
  "generateAIResponseWith toLower message = Fulfilled (ruleScanResponse (toLower message))"
  unfolding generateAIResponseWith_def ruleScanResponse_def responseRules_def ruleMatches_def
  by (simp add: includes_str_sublist Let_def)

lemma ruleScanResponse_save_for_a_house:
  "ruleScanResponse ''i want to save for a house'' = savingsTemplate"
  by (simp add: ruleScanResponse_def responseRules_def ruleMatches_def
        includes_str_sublist [symmetric])

text \<open>
  An input outside ASCII: \<open>401\<close> followed by the Kelvin sign U+212A, which the runtime
  lower-cases to \<open>401k\<close>, gets the retirement template.
\<close>

lemma generateAIResponseWith_kelvin:
  assumes "toLower (''401'' @ [CHR 0xE2, CHR 0x84, CHR 0xAA]) = ''401k''"
  shows "generateAIResponseWith toLower (''401'' @ [CHR 0xE2, CHR 0x84, CHR 0xAA]) =
           Fulfilled retirementTemplate"
  using assms by (simp add: generateAIResponseWith_def)

text \<open>
  C1. For every input string, \<open>generateAIResponse\<close> lower-cases the input, scans the
  response rules in their declaration order (savings/save, budget/spending,
  invest/investment, debt/credit, retirement/401k) and returns the template of the first
  rule one of whose keywords is a substring of the lower-cased input; when no keyword of
  any rule occurs in it, the fallback template. The lower-casing is the runtime's
  (\<open>toLower\<close>), applied once to the whole input, and the substring test is
  \<^const>\<open>sublist\<close>; of the runtime's function the theorem assumes what it does on ASCII
  strings, so that for an ASCII input the response is the scan of the input with its
  letters \<open>A\<close>..\<open>Z\<close> replaced by \<open>a\<close>..\<open>z\<close>.
\<close>

theorem generateAIResponse_first_matching_rule:
  assumes "\<And>s. isASCII s \<Longrightarrow> toLower s = lowerCased s"
  shows "generateAIResponseWith toLower message = Fulfilled (ruleScanResponse (toLower message)) \<and>
         (isASCII message \<longrightarrow>
            generateAIResponseWith toLower message = Fulfilled (ruleScanResponse (lowerCased message)))"
  using assms [of message] by (simp add: generateAIResponseWith_scan)

theorem generateAIResponse_first_matching_rule_witness:
  "isASCII ''I want to SAVE for a house'' \<and>
   lowerCased ''I want to SAVE for a house'' = ''i want to save for a house'' \<and>
   generateAIResponseWith toLowerCase ''I want to SAVE for a house'' = Fulfilled savingsTemplate \<and>
   generateAIResponse ''I want to SAVE for a house'' = Fulfilled savingsTemplate"
proof -
  have a: "isASCII ''I want to SAVE for a house''"
    by (simp add: isASCII_def)
  have b: "lowerCased ''I want to SAVE for a house'' = ''i want to save for a house''"
    by (simp add: lowerCased_def lowerCaseLetter_def)
  have "generateAIResponseWith toLowerCase ''I want to SAVE for a house'' =
      Fulfilled (ruleScanResponse (lowerCased ''I want to SAVE for a house''))"
    using generateAIResponse_first_matching_rule
      [of toLowerCase "''I want to SAVE for a house''", OF toLowerCase_lowerCased] a
    by blast
  then show ?thesis
    using a b by (simp add: generateAIResponse_def ruleScanResponse_save_for_a_house)
qed

lemma generateAIResponse_cases:
  "generateAIResponse message \<in> Fulfilled ` set (fallbackTemplate # map template responseRules)"
  unfolding generateAIResponse_def generateAIResponseWith_def responseRules_def
  by (simp add: Let_def)

lemma handleSendMessage_new_contents:
  "map content (drop (length (messages st))
      (messages (handleSendMessage now1 date1 now2 date2
                   (st\<lparr>inputMessage := m, isLoading := False\<rparr>)))) =
   (if trim m = [] then []
    else [trim m, (case generateAIResponse (trim m) of Fulfilled t \<Rightarrow> t | Rejected e \<Rightarrow> [])])"
  using generateAIResponse_cases [of "trim m"]
  by (auto simp: handleSendMessage_def addMessage_def Let_def split: settled.splits)

text \<open>
  C6. The response function is total and raises no error: its promise is always
  fulfilled, with one of the five templates or the fallback. It is deterministic and
  independent of the history: whatever the conversation log, the quiz state, the pending
  callbacks and the clock are (any two states \<open>st\<close> and \<open>st'\<close>), sending the same input
  \<open>m\<close> appends messages with the same texts.
\<close>

theorem generateAIResponse_deterministic_total:
  "generateAIResponse message \<in> Fulfilled ` set (fallbackTemplate # map template responseRules) \<and>
   map content (drop (length (messages st))
      (messages (handleSendMessage now1 date1 now2 date2
                   (st\<lparr>inputMessage := m, isLoading := False\<rparr>)))) =
   map content (drop (length (messages st'))
      (messages (handleSendMessage now1' date1' now2' date2'
                   (st'\<lparr>inputMessage := m, isLoading := False\<rparr>))))"
  by (simp only: handleSendMessage_new_contents generateAIResponse_cases simp_thms)

section \<open>One answer\<close>

text \<open>
  C2, as the code has it. In a quiz in progress (\<open>currentQuiz\<close> is set and points at a
  question of the bank), submitting the index of the right option adds exactly 1 to the
  score and any other index leaves the score as it is. The current question index then
  moves on by 1 when another question follows; on the last question it stays where it is
  (the quiz is closed later, by the results callback).
\<close>

theorem handleQuizAnswer_scores_and_advances:
  assumes "currentQuiz st = Some cq" and "currentQuestion cq < length (questions cq)"
  shows "case handleQuizAnswer answerIndex now date st of
           Inl e \<Rightarrow> False
         | Inr st' \<Rightarrow>
             quizScore st' =
               (if answerIndex = correct (questions cq ! currentQuestion cq)
                then quizScore st + 1 else quizScore st) \<and>
             currentQuiz st' =
               Some (cq\<lparr>currentQuestion :=
                      (if currentQuestion cq + 1 < length (questions cq)
                       then currentQuestion cq + 1 else currentQuestion cq)\<rparr>)"
  using assms
  by (auto simp: handleQuizAnswer_def addMessage_def Let_def)

theorem handleQuizAnswer_scores_and_advances_witness:
  "currentQuiz (startQuiz (initialState 0)) =
     Some \<lparr>currentQuestion = 0, questions = quizQuestions, answers = []\<rparr> \<and>
   currentQuestion \<lparr>currentQuestion = 0, questions = quizQuestions, answers = []\<rparr>
     < length (questions \<lparr>currentQuestion = 0, questions = quizQuestions, answers = []\<rparr>) \<and>
   (case handleQuizAnswer 0 1000 1000 (startQuiz (initialState 0)) of
      Inl e \<Rightarrow> False
    | Inr st' \<Rightarrow> quizScore st' = 1 \<and> map_option currentQuestion (currentQuiz st') = Some 1)"
proof -
  let ?cq = "\<lparr>currentQuestion = 0, questions = quizQuestions, answers = []\<rparr>"
  have a: "currentQuiz (startQuiz (initialState 0)) = Some ?cq"
    by (simp add: startQuiz_def)
  have b: "currentQuestion ?cq < length (questions ?cq)"
    by (simp add: quizQuestions_length)
  have c: "correct (questions ?cq ! currentQuestion ?cq) = 0"
    by (simp add: quizQuestions_def)
  have d: "quizScore (startQuiz (initialState 0)) = 0"
    by (simp add: startQuiz_def)
  show ?thesis
    using handleQuizAnswer_scores_and_advances [OF a b, of 0 1000 1000] a b c d
    by (auto simp: quizQuestions_length split: sum.splits)
qed

text \<open>
  C2 as it is stated fails on the last question: after four answers the quiz is at index
  4, and after the fifth answer it is still at index 4, not 5.
\<close>

theorem last_answer_keeps_question_index:
  "map_option currentQuestion
     (currentQuiz (run (take 4 allCorrectAnswers) (startQuiz (initialState 0)))) = Some 4 \<and>
   map_option currentQuestion
     (currentQuiz (run allCorrectAnswers (startQuiz (initialState 0)))) = Some 4"
  by (simp add: allCorrectAnswers_def quiz_defs)

text \<open>
  C10. An answer submitted while no quiz is active (\<open>currentQuiz\<close> is null) changes
  nothing: the handler returns at once, and the log, the score, the quiz state and the
  pending callbacks are what they were.
\<close>

theorem handleQuizAnswer_no_quiz:
  "currentQuiz st = None \<Longrightarrow> handleQuizAnswer answerIndex now date st = Inr st"
  by (simp add: handleQuizAnswer_def)

theorem handleQuizAnswer_no_quiz_witness:
  "currentQuiz (initialState 0) = None \<and>
   handleQuizAnswer 1 5 5 (initialState 0) = Inr (initialState 0)"
  using handleQuizAnswer_no_quiz [of "initialState 0" 1 5 5]
  by (simp add: initialState_def)

text \<open>
  C7. \<open>startQuiz\<close> puts the quiz at question 0 of the bank with score 0, whatever the state
  before was (so also after a completed quiz, and whatever its score and answers were).
  The "Take Quiz Again" button goes through \<open>handleQuickAction('quiz')\<close>, with the same
  result.
\<close>

theorem startQuiz_resets:
  "currentQuiz (startQuiz st) =
     Some \<lparr>currentQuestion = 0, questions = quizQuestions, answers = []\<rparr> \<and>
   quizScore (startQuiz st) = 0 \<and>
   currentQuiz (handleQuickAction ''quiz'' now date st) =
     Some \<lparr>currentQuestion = 0, questions = quizQuestions, answers = []\<rparr> \<and>
   quizScore (handleQuickAction ''quiz'' now date st) = 0"
  by (simp add: startQuiz_def handleQuickAction_def addMessage_def Let_def)

section \<open>A whole quiz\<close>

lemma quizInv_startQuiz: "timeouts st = [] \<Longrightarrow> quizInv 0 (startQuiz st)"
  by (simp add: quizInv_def startQuiz_def)

lemma quizInv_answer:
  assumes "quizInv k s"
  shows "quizInv (Suc k) (stepEvent (QuizAnswer a now date) s)"
proof (cases "currentQuiz s")
  case None
  with assms show ?thesis
    by (simp add: quizInv_def handleQuizAnswer_def)
next
  case (Some cq)
  with assms have q: "questions cq = quizQuestions" and i: "currentQuestion cq = min k 4"
    and t: "list_ex isResultsTimeout (timeouts s) = (5 \<le> k)" and sc: "quizScore s \<le> k"
    by (simp_all add: quizInv_def)
  show ?thesis
  proof (cases "k < 4")
    case True
    with Some q i t sc show ?thesis
      by (simp add: quizInv_def handleQuizAnswer_def addMessage_def Let_def quizQuestions_length)
  next
    case False
    with Some q i t sc show ?thesis
      by (simp add: quizInv_def handleQuizAnswer_def addMessage_def Let_def quizQuestions_length)
  qed
qed

lemma quizInv_timeout:
  assumes "quizInv k s"
  shows "quizInv k (stepEvent (TimeoutFires now date) s)"
proof (cases "timeouts s")
  case Nil
  with assms show ?thesis by simp
next
  case (Cons t ts)
  show ?thesis
  proof (cases t)
    case (NextQuestionTimeout cq)
    with Cons assms show ?thesis
      by (auto simp: quizInv_def addMessage_def Let_def split: option.splits)
  next
    case (QuizResultsTimeout score)
    with Cons assms show ?thesis
      by (auto simp: quizInv_def showQuizResults_def addMessage_def Let_def split: option.splits)
  qed
qed

lemma quizInv_run: "quizInv k s \<Longrightarrow> quizInv (k + answersIn evs) (run evs s)"
proof (induction evs arbitrary: k s)
  case Nil
  then show ?case by simp
next
  case (Cons ev evs)
  show ?case
  proof (cases ev)
    case (QuizAnswer a now date)
    with Cons.IH [OF quizInv_answer [OF Cons.prems, of a now date]] show ?thesis by simp
  next
    case (TimeoutFires now date)
    with Cons.IH [OF quizInv_timeout [OF Cons.prems, of now date]] show ?thesis by simp
  qed
qed

lemma allCorrectSession_score:
  "quizScore (run allCorrectSession (startQuiz (initialState 0))) = 5"
  by (simp add: allCorrectSession_def quiz_defs)

lemma allCorrectSession_timeouts:
  "timeouts (run allCorrectSession (startQuiz (initialState 0))) = []"
  by (simp add: allCorrectSession_def quiz_defs)

lemma allCorrectSession_last:
  "content (last (messages (run allCorrectSession (startQuiz (initialState 0))))) =
     resultMessage 4 (percentageOf 4)"
  by (simp add: allCorrectSession_def quiz_defs eval_nat_numeral)

text \<open>
  What the quiz does keep. Take a quiz started by \<open>startQuiz\<close> while no callback is
  pending, and any run of at most five answer clicks with callbacks running in between.
  In every state of the run the current question index is between 0 and 4 and the score is
  at most the number of answers given. After exactly five answers, once the callbacks
  they scheduled have all run, \<open>currentQuiz\<close> is null and the results flag is set.
\<close>

lemma quiz_run_bounds:
  assumes "timeouts st = []" and "answersIn evs \<le> 5"
  shows "(case currentQuiz (run evs (startQuiz st)) of
            Some cq \<Rightarrow> currentQuestion cq \<le> 4 | None \<Rightarrow> True) \<and>
         quizScore (run evs (startQuiz st)) \<le> answersIn evs \<and>
         quizScore (run evs (startQuiz st)) \<le> 5 \<and>
         (answersIn evs = 5 \<and> timeouts (run evs (startQuiz st)) = [] \<longrightarrow>
            currentQuiz (run evs (startQuiz st)) = None \<and>
            showQuizResults_flag (run evs (startQuiz st)))"
proof -
  have inv: "quizInv (answersIn evs) (run evs (startQuiz st))"
    using quizInv_run [OF quizInv_startQuiz [OF assms(1)], of evs] by simp
  with assms(2) show ?thesis
    by (auto simp: quizInv_def split: option.splits)
qed

lemma allCorrectSession_completes:
  "currentQuiz (run allCorrectSession (startQuiz (initialState 0))) = None \<and>
   showQuizResults_flag (run allCorrectSession (startQuiz (initialState 0)))"
proof -
  have a: "timeouts (initialState 0) = []"
    by (simp add: initialState_def)
  have b: "answersIn allCorrectSession = 5"
    by (simp add: allCorrectSession_def)
  have c: "answersIn allCorrectSession \<le> 5"
    by (simp add: b)
  show ?thesis
    using quiz_run_bounds [OF a c] b allCorrectSession_timeouts by simp
qed

text \<open>
  C3 does not hold of the code. The fifth answer does not close the quiz: it schedules
  \<open>showQuizResults\<close> two seconds later (lines 198 to 203), and until that callback runs
  \<open>currentQuiz\<close> is still set, at the last question, and the results flag is not. In
  that interval the panel still shows the options of the last question and
  \<open>handleQuizAnswer\<close> still counts a click on the right one: after the five right answers
  the score is 5, and a sixth click brings it to 6, with five questions in the bank.
\<close>

theorem sixth_answer_scores_6_of_5:
  "currentQuiz (run allCorrectAnswers (startQuiz (initialState 0))) \<noteq> None \<and>
   showQuizResults_flag (run allCorrectAnswers (startQuiz (initialState 0))) = False \<and>
   quizScore (run allCorrectAnswers (startQuiz (initialState 0))) = 5 \<and>
   quizScore (run (allCorrectAnswers @ [QuizAnswer 1 13500 13500]) (startQuiz (initialState 0))) = 6 \<and>
   length quizQuestions = 5"
  by (simp add: allCorrectAnswers_def quiz_defs)

section \<open>The summary\<close>

lemma suffix_tier_simps:
  "suffix expertTierMessage (xs @ expertTierMessage)"
  "suffix intermediateTierMessage (xs @ intermediateTierMessage)"
  "suffix beginnerTierMessage (xs @ beginnerTierMessage)"
  "\<not> suffix expertTierMessage (xs @ intermediateTierMessage)"
  "\<not> suffix expertTierMessage (xs @ beginnerTierMessage)"
  "\<not> suffix intermediateTierMessage (xs @ expertTierMessage)"
  "\<not> suffix intermediateTierMessage (xs @ beginnerTierMessage)"
  "\<not> suffix beginnerTierMessage (xs @ expertTierMessage)"
  "\<not> suffix beginnerTierMessage (xs @ intermediateTierMessage)"
  by (simp_all add: suffix_to_prefix expertTierMessage_def intermediateTierMessage_def
        beginnerTierMessage_def)

text \<open>
  C4. The tier of the summary depends on the percentage alone: the message ends with the
  expert text exactly when the percentage is at least 80, with the intermediate text
  exactly when it is at least 60 and below 80, and with the beginner text exactly when it
  is below 60. The percentage \<open>showQuizResults\<close> passes is score / question count * 100.
\<close>

theorem resultMessage_tiers:
  "(suffix expertTierMessage (resultMessage score p) \<longleftrightarrow> 80 \<le> p) \<and>
   (suffix intermediateTierMessage (resultMessage score p) \<longleftrightarrow> 60 \<le> p \<and> p < 80) \<and>
   (suffix beginnerTierMessage (resultMessage score p) \<longleftrightarrow> p < 60) \<and>
   content (last (messages (showQuizResults score now date st))) =
     resultMessage score (of_nat score / of_nat (length quizQuestions) * 100)"
proof -
  have "\<exists>xs. resultMessage score p =
      xs @ (if 80 \<le> p then expertTierMessage
            else if 60 \<le> p then intermediateTierMessage else beginnerTierMessage)"
    by (simp add: resultMessage_def)
  then obtain xs where xs: "resultMessage score p =
      xs @ (if 80 \<le> p then expertTierMessage
            else if 60 \<le> p then intermediateTierMessage else beginnerTierMessage)" ..
  have "content (last (messages (showQuizResults score now date st))) =
     resultMessage score (of_nat score / of_nat (length quizQuestions) * 100)"
    by (simp add: showQuizResults_def addMessage_def percentageOf_def Let_def)
  then show ?thesis
    unfolding xs by (auto simp: suffix_tier_simps simp del: append_assoc)
qed

theorem resultMessage_tiers_witness:
  "suffix expertTierMessage (resultMessage 5 100) \<and>
   suffix expertTierMessage (resultMessage 4 80) \<and>
   suffix intermediateTierMessage (resultMessage 3 60) \<and>
   suffix beginnerTierMessage (resultMessage 2 59)"
  using resultMessage_tiers [of 5 100] resultMessage_tiers [of 4 80]
    resultMessage_tiers [of 3 60] resultMessage_tiers [of 2 59]
  by simp

lemma percentageOf_4: "percentageOf 4 = 80"
  by (simp add: percentageOf_def quizQuestions_length)

lemma resultMessage_4_80:
  "resultMessage 4 80 = [CHR 0xF0, CHR 0x9F, CHR 0x8E, CHR 0x89] @
     '' Congratulations! You scored 4/5 (80%)\<newline>\<newline>'' @ expertTierMessage"
  by (simp add: resultMessage_def scoreLine_def numberToString_def quizQuestions_length)

text \<open>
  C5 does not hold of the code. When all five questions are answered with the right
  option, the score in the state is 5, but the summary is written by the
  \<open>showQuizResults\<close> of the render in which the fifth answer was clicked, which still holds
  the score of before that answer: the message reads "4/5 (80%)", with the expert text.
\<close>

theorem all_correct_summary_reads_4_of_5:
  "content (last (messages (run allCorrectSession (startQuiz (initialState 0))))) =
     [CHR 0xF0, CHR 0x9F, CHR 0x8E, CHR 0x89] @
     '' Congratulations! You scored 4/5 (80%)\<newline>\<newline>'' @ expertTierMessage \<and>
   quizScore (run allCorrectSession (startQuiz (initialState 0))) = 5"
  by (simp only: allCorrectSession_last percentageOf_4 resultMessage_4_80
        allCorrectSession_score simp_thms)

section \<open>Message ids\<close>

text \<open>
  C9 does not hold of the code. A message's id is the clock reading \<open>Date.now()\<close> at its
  creation, in milliseconds, and the list of messages is rendered with these ids as keys.
  When the user's message and the reply to it are created within the same millisecond
  (the reply is computed at once; no timer lies between the two readings), both get the
  same id.
\<close>

theorem handleSendMessage_same_millisecond:
  "map message_id
     (messages (handleSendMessage 1700000000000 1700000000000 1700000000000 1700000000000
                  ((initialState 0)\<lparr>inputMessage := ''hi''\<rparr>))) =
   [1, 2, 1700000000000, 1700000000000]"
  using generateAIResponse_cases [of "''hi''"]
  by (auto simp: handleSendMessage_def initialState_def initialMessages_def addMessage_def
        trim_hi Let_def split: settled.splits)

section \<open>The analytics panel\<close>

text \<open>
  C8. When the awaited delay is rejected, \<open>handleAnalysis\<close> shows the error notice and
  leaves the stored results as they were; when it is fulfilled, the results become the
  newly generated object (and the success notice is shown).
\<close>

theorem handleAnalysis_results:
  "analysisResults (handleAnalysis (Rejected e) isoString analysisType st) = analysisResults st \<and>
   analysisToasts (handleAnalysis (Rejected e) isoString analysisType st) =
     analysisToasts st @ [ToastError ''Analysis failed. Please try again.''] \<and>
   analysisResults (handleAnalysis (Fulfilled ()) isoString analysisType st) =
     Some (generateMockResults isoString analysisType) \<and>
   analysisToasts (handleAnalysis (Fulfilled ()) isoString analysisType st) =
     analysisToasts st @ [ToastSuccess ''AI Analysis completed successfully!'']"
  by (simp add: handleAnalysis_def Let_def)

end
